theory Spec2Isabelle
  imports Main
begin

section \<open>SafePointer: an owning buffer over malloc, realloc and free\<close>

text \<open>
  The embedding follows \<^verbatim>\<open>safeptr.hpp\<close>. An object of class \<^verbatim>\<open>SafePointer<T>\<close> is a
  record of its three private members; the members \<^verbatim>\<open>ptr_\<close>, \<^verbatim>\<open>allocated_\<close> and
  \<^verbatim>\<open>size_\<close> are written \<open>ptr_m\<close>, \<open>allocated_m\<close> and \<open>size_m\<close>, since a name cannot
  end in an underscore here. Member functions take the object and the heap and return
  both; a thrown exception is the left injection and carries the state the object and
  the heap are left in.
\<close>

subsection \<open>Memory\<close>

text \<open>
  A pointer \<^verbatim>\<open>T*\<close> is an address counted in elements of \<^verbatim>\<open>T\<close>; \<open>0\<close> is
  \<^verbatim>\<open>nullptr\<close>. The heap holds the cells and the list of live allocations, each with its
  base address and the number of whole elements it has room for.
\<close>

type_synonym addr = nat

record 'a heap =
  cells :: "addr \<Rightarrow> 'a"
  blocks :: "(addr \<times> nat) list"

text \<open>
  What the language leaves to the implementation and the class depends on: the size of
  an element, what \<^verbatim>\<open>realloc\<close> does with the old block when it is asked for zero bytes
  and returns null (glibc frees it), and whether the compiler elides the copy of a local
  object that a function returns by value (it may, and need not).
\<close>

record platform =
  sizeof_T :: nat
  realloc_zero_frees :: bool
  nrvo :: bool

text \<open>
  \<^verbatim>\<open>size_t\<close> has 64 bits: a value converted to it is taken modulo \<open>2 ^ 64\<close>. The
  argument \<^verbatim>\<open>size * sizeof(T)\<close> of \<^verbatim>\<open>malloc\<close> and \<^verbatim>\<open>realloc\<close> is such a value.
\<close>

definition to_size_t :: "int \<Rightarrow> nat" where
  "to_size_t i = nat (i mod 2 ^ 64)"

definition byte_count :: "platform \<Rightarrow> nat \<Rightarrow> nat" where
  "byte_count M sz = to_size_t (int sz * int (sizeof_T M))"

text \<open>
  The allocator is outside the class. Each call of \<^verbatim>\<open>malloc\<close> or \<^verbatim>\<open>realloc\<close> has the
  number of bytes asked for and the pointer it returns as the arguments \<open>bytes\<close> and
  \<open>r\<close> of the model (\<open>r\<close> is \<open>0\<close> when the allocator returns null), and the effect on
  the heap is the one the C standard gives: \<^verbatim>\<open>malloc\<close> records a new block with room
  for as many whole elements as the bytes hold, \<^verbatim>\<open>free\<close> retires the block at that
  base (and does nothing for \<^verbatim>\<open>nullptr\<close>), \<^verbatim>\<open>realloc\<close> that returns a pointer retires
  the old block, records the new one and carries over the elements up to the lesser of
  the old and new room. A \<^verbatim>\<open>realloc\<close> that returns null leaves everything alone, but
  for a request of zero bytes, where the platform says whether the old block is freed.
\<close>

definition block_len :: "'a heap \<Rightarrow> addr \<Rightarrow> nat" where
  "block_len h p = (case map_of (blocks h) p of None \<Rightarrow> 0 | Some l \<Rightarrow> l)"

definition malloc :: "platform \<Rightarrow> nat \<Rightarrow> addr \<Rightarrow> 'a heap \<Rightarrow> 'a heap" where
  "malloc M bytes r h =
     (if r = 0 then h else h\<lparr>blocks := (r, bytes div sizeof_T M) # blocks h\<rparr>)"

definition free :: "addr \<Rightarrow> 'a heap \<Rightarrow> 'a heap" where
  "free p h = h\<lparr>blocks := filter (\<lambda>b. fst b \<noteq> p) (blocks h)\<rparr>"

definition realloc :: "platform \<Rightarrow> addr \<Rightarrow> nat \<Rightarrow> addr \<Rightarrow> 'a heap \<Rightarrow> 'a heap" where
  "realloc M p bytes r h =
     (if r = 0 then (if bytes = 0 \<and> realloc_zero_frees M then free p h else h)
      else let n = bytes div sizeof_T M;
               k = min (block_len h p) n
           in \<lparr>cells = (\<lambda>a. if r \<le> a \<and> a < r + k then cells h (p + (a - r)) else cells h a),
               blocks = (r, n) # filter (\<lambda>b. fst b \<noteq> p) (blocks h)\<rparr>)"

text \<open>
  What a well-behaved allocator promises of a pointer it hands out for a region of \<open>n\<close>
  elements: it is not null and the new region meets no live block.
\<close>

definition fresh :: "'a heap \<Rightarrow> addr \<Rightarrow> nat \<Rightarrow> bool" where
  "fresh h r n = (r \<noteq> 0 \<and> list_all (\<lambda>b. r + n \<le> fst b \<or> fst b + snd b \<le> r) (blocks h))"

subsection \<open>The class\<close>

record SafePointer =
  ptr_m :: addr
  allocated_m :: bool
  size_m :: nat

text \<open>
  The exceptions the class throws, with the message of the source. The four kinds of the
  specification are read off them: every \<^verbatim>\<open>std::invalid_argument\<close> is an
  \<open>InvalidArgument\<close>, and a \<^verbatim>\<open>std::runtime_error\<close> is an \<open>AllocationFailure\<close>, a
  \<open>ReallocationFailure\<close> or a \<open>NotAllocated\<close> by its message.
\<close>

datatype exn = invalid_argument string | runtime_error string

fun InvalidArgument :: "exn \<Rightarrow> bool" where
  "InvalidArgument (invalid_argument m) = True"
| "InvalidArgument (runtime_error m) = False"

definition AllocationFailure :: exn where
  "AllocationFailure = runtime_error ''Memory allocation failed''"

definition ReallocationFailure :: exn where
  "ReallocationFailure = runtime_error ''Memory reallocation failed''"

fun NotAllocated :: "exn \<Rightarrow> bool" where
  "NotAllocated (runtime_error m) =
     (m \<in> {''Cannot fill: memory is not allocated'',
            ''Cannot set value: memory is not allocated'',
            ''Cannot set values: memory is not allocated'',
            ''Cannot get values: memory is not allocated'',
            ''Cannot copy from an unallocated SafePointer''})"
| "NotAllocated (invalid_argument m) = False"

type_synonym 'a st = "SafePointer \<times> 'a heap"

type_synonym 'a result = "(exn \<times> 'a st) + 'a st"

text \<open>
  \<^verbatim>\<open>SafePointer() = default\<close>: \<^verbatim>\<open>ptr_\<close> and \<^verbatim>\<open>allocated_\<close> have default member
  initialisers, \<^verbatim>\<open>size_\<close> has none, so a default-initialised object holds whatever the
  storage held. That value is the argument \<open>junk\<close>.
\<close>

definition default_ctor :: "nat \<Rightarrow> SafePointer" where
  "default_ctor junk = \<lparr>ptr_m = 0, allocated_m = False, size_m = junk\<rparr>"

text \<open>
  The class declares a destructor and a copy assignment and no copy or move constructor,
  so copying an object is the implicit member-by-member copy: the copy has the same
  pointer.
\<close>

definition copy_ctor :: "SafePointer \<Rightarrow> SafePointer" where
  "copy_ctor other =
     \<lparr>ptr_m = ptr_m other, allocated_m = allocated_m other, size_m = size_m other\<rparr>"

definition is_allocated :: "SafePointer \<Rightarrow> bool" where
  "is_allocated s = allocated_m s"

definition get :: "SafePointer \<Rightarrow> addr" where
  "get s = ptr_m s"

definition size_sp :: "SafePointer \<Rightarrow> nat" where
  "size_sp s = size_m s"

definition is_empty :: "SafePointer \<Rightarrow> bool" where
  "is_empty s = (allocated_m s \<and> size_m s = 0)"

definition begin_sp :: "SafePointer \<Rightarrow> addr" where
  "begin_sp s = ptr_m s"

definition end_sp :: "SafePointer \<Rightarrow> addr" where
  "end_sp s = ptr_m s + size_m s"

text \<open>
  \<^verbatim>\<open>allocate\<close> and \<^verbatim>\<open>reallocate\<close> call each other: \<^verbatim>\<open>allocate\<close> hands an allocated
  object to \<^verbatim>\<open>reallocate\<close>, \<^verbatim>\<open>reallocate\<close> hands an unallocated one to
  \<^verbatim>\<open>allocate\<close>. In \<^verbatim>\<open>allocate\<close> the result of \<^verbatim>\<open>malloc\<close> is stored in \<^verbatim>\<open>ptr_\<close>
  before it is tested. The parameter \<^verbatim>\<open>size\<close> is written \<open>sz\<close>.
\<close>

function allocate :: "platform \<Rightarrow> nat \<Rightarrow> addr \<Rightarrow> 'a st \<Rightarrow> 'a result"
  and reallocate :: "platform \<Rightarrow> nat \<Rightarrow> addr \<Rightarrow> 'a st \<Rightarrow> 'a result" where
  "allocate M sz r (s, h) =
     (if sz = 0 then Inl (invalid_argument ''Cannot allocate 0 elements'', (s, h))
      else if allocated_m s then reallocate M sz r (s, h)
      else let s1 = s\<lparr>ptr_m := r\<rparr>; h1 = malloc M (byte_count M sz) r h
           in if ptr_m s1 = 0 then Inl (runtime_error ''Memory allocation failed'', (s1, h1))
              else Inr (s1\<lparr>size_m := sz, allocated_m := True\<rparr>, h1))"
| "reallocate M sz r (s, h) =
     (if sz = 0 then Inl (invalid_argument ''Cannot reallocate to 0 elements'', (s, h))
      else if \<not> allocated_m s then allocate M sz r (s, h)
      else let new_ptr = r; h1 = realloc M (ptr_m s) (byte_count M sz) r h
           in if new_ptr = 0 then Inl (runtime_error ''Memory reallocation failed'', (s, h1))
              else Inr (s\<lparr>size_m := sz, ptr_m := new_ptr\<rparr>, h1))"
  by pat_completeness auto
termination
  by (relation "measure (\<lambda>c. case c of
         Inl (M, n, r, s, h) \<Rightarrow> if allocated_m s then 1 else 0
       | Inr (M, n, r, s, h) \<Rightarrow> if allocated_m s then 0 else 1)") auto

definition deallocate :: "'a st \<Rightarrow> 'a st" where
  "deallocate = (\<lambda>(s, h).
     if allocated_m s
     then (s\<lparr>ptr_m := 0, allocated_m := False, size_m := 0\<rparr>, free (ptr_m s) h)
     else (s, h))"

definition clear :: "bool \<Rightarrow> 'a st \<Rightarrow> 'a st" where
  "clear doDeallocate = (\<lambda>(s, h).
     if doDeallocate then deallocate (s, h)
     else (s\<lparr>ptr_m := 0, size_m := 0\<rparr>, h))"

definition resize :: "platform \<Rightarrow> nat \<Rightarrow> addr \<Rightarrow> 'a st \<Rightarrow> 'a result" where
  "resize M sz r = (\<lambda>(s, h).
     if sz = size_m s then Inr (s, h)
     else if sz = 0 then Inr (deallocate (s, h))
     else reallocate M sz r (s, h))"

definition set_sp :: "addr \<Rightarrow> 'a st \<Rightarrow> 'a st" where
  "set_sp p = (\<lambda>(s, h).
     let (s1, h1) = (if allocated_m s then deallocate (s, h) else (s, h));
         s2 = s1\<lparr>ptr_m := p\<rparr>
     in (s2\<lparr>allocated_m := (ptr_m s2 \<noteq> 0)\<rparr>, h1))"

definition compare :: "SafePointer \<Rightarrow> SafePointer \<Rightarrow> bool" where
  "compare s other = (ptr_m s = ptr_m other)"

text \<open>
  \<^verbatim>\<open>std::copy\<close> and \<^verbatim>\<open>std::fill\<close> on raw pointers are the loops of the standard:
  one element at a time, from the front. A range whose end lies before its start has no
  defined behaviour in the source; the loops of the model do nothing on it.
\<close>

fun copy_loop :: "nat \<Rightarrow> addr \<Rightarrow> addr \<Rightarrow> (addr \<Rightarrow> 'a) \<Rightarrow> (addr \<Rightarrow> 'a)" where
  "copy_loop 0 first d c = c"
| "copy_loop (Suc k) first d c = copy_loop k (Suc first) (Suc d) (c(d := c first))"

definition std_copy :: "addr \<Rightarrow> addr \<Rightarrow> addr \<Rightarrow> 'a heap \<Rightarrow> 'a heap" where
  "std_copy first_p last_p d h = h\<lparr>cells := copy_loop (last_p - first_p) first_p d (cells h)\<rparr>"

fun fill_loop :: "nat \<Rightarrow> addr \<Rightarrow> 'a \<Rightarrow> (addr \<Rightarrow> 'a) \<Rightarrow> (addr \<Rightarrow> 'a)" where
  "fill_loop 0 first v c = c"
| "fill_loop (Suc k) first v c = fill_loop k (Suc first) v (c(first := v))"

definition std_fill :: "addr \<Rightarrow> addr \<Rightarrow> 'a \<Rightarrow> 'a heap \<Rightarrow> 'a heap" where
  "std_fill first_p last_p v h = h\<lparr>cells := fill_loop (last_p - first_p) first_p v (cells h)\<rparr>"

definition fill_range :: "addr \<Rightarrow> addr \<Rightarrow> 'a \<Rightarrow> 'a st \<Rightarrow> 'a result" where
  "fill_range first_p last_p v = (\<lambda>(s, h).
     if \<not> allocated_m s \<or> ptr_m s = 0
     then Inl (runtime_error ''Cannot fill: memory is not allocated'', (s, h))
     else Inr (s, std_fill first_p last_p v h))"

definition fill :: "'a \<Rightarrow> 'a st \<Rightarrow> 'a result" where
  "fill v = (\<lambda>(s, h). fill_range (begin_sp s) (end_sp s) v (s, h))"

text \<open>\<^verbatim>\<open>ptr_[idx] = value\<close> is not checked against \<^verbatim>\<open>size_\<close>.\<close>

definition set_value :: "'a \<Rightarrow> nat \<Rightarrow> 'a st \<Rightarrow> 'a result" where
  "set_value v idx = (\<lambda>(s, h).
     if \<not> allocated_m s \<or> ptr_m s = 0
     then Inl (runtime_error ''Cannot set value: memory is not allocated'', (s, h))
     else Inr (s, h\<lparr>cells := (cells h)(ptr_m s + idx := v)\<rparr>))"

text \<open>
  In \<^verbatim>\<open>set_values\<close> the two counts are \<^verbatim>\<open>size_t\<close>: a pointer difference is signed and
  is converted to the unsigned type, so the arithmetic is modulo \<open>2 ^ 64\<close>.
\<close>

definition set_values :: "addr \<Rightarrow> addr \<Rightarrow> addr \<Rightarrow> 'a st \<Rightarrow> 'a result" where
  "set_values src_begin src_end dst_begin = (\<lambda>(s, h).
     if \<not> allocated_m s \<or> ptr_m s = 0
     then Inl (runtime_error ''Cannot set values: memory is not allocated'', (s, h))
     else if src_begin = 0 \<or> src_end = 0 \<or> dst_begin = 0
     then Inl (invalid_argument ''Source and destination pointers cannot be null'', (s, h))
     else let src_count = to_size_t (int src_end - int src_begin);
              dst_count = to_size_t (int (size_m s) - (int dst_begin - int (ptr_m s)))
          in if src_count > dst_count
             then Inl (invalid_argument ''Source range exceeds destination space'', (s, h))
             else Inr (s, std_copy src_begin src_end dst_begin h))"

text \<open>
  \<^verbatim>\<open>clone\<close> is a const member: it builds a local object, default-initialised (its
  \<^verbatim>\<open>size_\<close> starts as \<open>junk\<close>), fills it and returns it by value; the object cloned is
  not written. When \<^verbatim>\<open>allocate\<close> throws, the local is destroyed on the way out. On
  \<^verbatim>\<open>return new_sptr\<close> the compiler may build the local in the caller's object, and
  then the caller has the local itself. When it does not, the caller's object is a copy
  of the local made by the copy constructor, and the local's destructor runs after the
  copy is made.
\<close>

definition clone :: "platform \<Rightarrow> nat \<Rightarrow> addr \<Rightarrow> 'a st \<Rightarrow> (exn \<times> 'a heap) + 'a st" where
  "clone M junk r = (\<lambda>(s, h).
     case allocate M (size_m s) r (default_ctor junk, h) of
       Inl (e, new_sptr, h1) \<Rightarrow> Inl (e, snd (deallocate (new_sptr, h1)))
     | Inr (new_sptr, h1) \<Rightarrow>
         let h2 = std_copy (ptr_m s) (ptr_m s + size_m s) (ptr_m new_sptr) h1
         in if nrvo M then Inr (new_sptr, h2)
            else Inr (copy_ctor new_sptr, snd (deallocate (new_sptr, h2))))"

subsection \<open>Two objects\<close>

text \<open>
  \<^verbatim>\<open>move\<close> and \<^verbatim>\<open>swap\<close> take a second object by reference, and \<^verbatim>\<open>move\<close> asks
  whether it is the same object. The objects live in a store, named by their addresses;
  \<open>this\<close> and \<open>other\<close> are such names.
\<close>

record 'a world =
  objs :: "nat \<Rightarrow> SafePointer"
  mem :: "'a heap"

definition move :: "nat \<Rightarrow> nat \<Rightarrow> 'a world \<Rightarrow> 'a world" where
  "move this other w =
     (if this \<noteq> other
      then let (s1, h1) = deallocate (objs w this, mem w);
               w1 = w\<lparr>objs := (objs w)(this := s1), mem := h1\<rparr>;
               w2 = w1\<lparr>objs := (objs w1)(this := (objs w1 this)\<lparr>ptr_m := ptr_m (objs w1 other)\<rparr>)\<rparr>;
               w3 = w2\<lparr>objs := (objs w2)(this := (objs w2 this)\<lparr>allocated_m := allocated_m (objs w2 other)\<rparr>)\<rparr>;
               w4 = w3\<lparr>objs := (objs w3)(other := (objs w3 other)\<lparr>ptr_m := 0\<rparr>)\<rparr>;
               w5 = w4\<lparr>objs := (objs w4)(other := (objs w4 other)\<lparr>allocated_m := False\<rparr>)\<rparr>
           in w5\<lparr>objs := (objs w5)(other := (objs w5 other)\<lparr>size_m := 0\<rparr>)\<rparr>
      else w)"

definition swap :: "nat \<Rightarrow> nat \<Rightarrow> 'a world \<Rightarrow> 'a world" where
  "swap this other w =
     (let a = objs w this; b = objs w other
      in w\<lparr>objs := (objs w)(this := b, other := a)\<rparr>)"

subsection \<open>The invariant of the empty state, and concrete states\<close>

text \<open>
  The specification's invariant of an object that holds nothing: no pointer and a count
  of zero.
\<close>

definition empty_inv :: "SafePointer \<Rightarrow> bool" where
  "empty_inv s = (\<not> allocated_m s \<longrightarrow> ptr_m s = 0 \<and> size_m s = 0)"

text \<open>
  States used to run the operations. The platform is \<^verbatim>\<open>SafePointer<int>\<close> with elements
  of four bytes on glibc, compiled with the copy of a returned local elided, or not.
  The heaps have the cell at address \<open>a\<close> holding \<open>a\<close>: one with nothing allocated,
  one with the region of the buffer that \<^verbatim>\<open>allocate(5)\<close> makes of a new object when
  \<^verbatim>\<open>malloc\<close> answers \<open>100\<close>, and one where the caller has also allocated ten elements
  at \<open>500\<close>. The store has a buffer of three elements as object \<open>1\<close> and the buffer
  of five as object \<open>2\<close>.
\<close>

definition int_glibc :: platform where
  "int_glibc = \<lparr>sizeof_T = 4, realloc_zero_frees = True, nrvo = True\<rparr>"

definition int_glibc_unelided :: platform where
  "int_glibc_unelided = \<lparr>sizeof_T = 4, realloc_zero_frees = True, nrvo = False\<rparr>"

definition empty_heap :: "nat heap" where
  "empty_heap = \<lparr>cells = (\<lambda>a. a), blocks = []\<rparr>"

definition example_buf :: SafePointer where
  "example_buf = \<lparr>ptr_m = 100, allocated_m = True, size_m = 5\<rparr>"

definition example_heap :: "nat heap" where
  "example_heap = \<lparr>cells = (\<lambda>a. a), blocks = [(100, 5)]\<rparr>"

definition caller_heap :: "nat heap" where
  "caller_heap = \<lparr>cells = (\<lambda>a. a), blocks = [(500, 10), (100, 5)]\<rparr>"

definition example_world :: "nat world" where
  "example_world =
     \<lparr>objs = (\<lambda>x. default_ctor 0)
         (1 := \<lparr>ptr_m = 200, allocated_m = True, size_m = 3\<rparr>, 2 := example_buf),
      mem = \<lparr>cells = (\<lambda>a. a), blocks = [(200, 3), (100, 5)]\<rparr>\<rparr>"

section \<open>Properties\<close>

subsection \<open>The loops and the size arithmetic\<close>

lemma copy_loop_outside:
  "a < d \<or> d + k \<le> a \<Longrightarrow> copy_loop k f d c a = c a"
  by (induction k arbitrary: f d c) auto

lemma copy_loop_inside:
  "d \<le> f \<or> f + k \<le> d \<Longrightarrow> i < k \<Longrightarrow> copy_loop k f d c (d + i) = c (f + i)"
proof (induction k arbitrary: f d c i)
  case 0
  then show ?case by simp
next
  case (Suc k)
  show ?case
  proof (cases i)
    case 0
    then show ?thesis by (simp add: copy_loop_outside)
  next
    case (Suc j)
    have "copy_loop k (Suc f) (Suc d) (c(d := c f)) (Suc d + j) = (c(d := c f)) (Suc f + j)"
      using Suc.prems Suc by (intro Suc.IH) auto
    moreover have "d \<noteq> Suc f + j" using Suc.prems Suc by auto
    ultimately show ?thesis using Suc by simp
  qed
qed

lemma fill_loop_outside:
  "a < f \<or> f + k \<le> a \<Longrightarrow> fill_loop k f v c a = c a"
  by (induction k arbitrary: f c) auto

lemma fill_loop_inside:
  "f \<le> a \<Longrightarrow> a < f + k \<Longrightarrow> fill_loop k f v c a = v"
proof (induction k arbitrary: f c)
  case 0
  then show ?case by simp
next
  case (Suc k)
  then show ?case by (cases "a = f") (auto simp: fill_loop_outside)
qed

lemma std_copy_outside:
  "a < d \<or> d + (l - f) \<le> a \<Longrightarrow> cells (std_copy f l d h) a = cells h a"
  by (simp add: std_copy_def copy_loop_outside)

lemma std_copy_inside:
  "d \<le> f \<or> l \<le> d \<Longrightarrow> f \<le> l \<Longrightarrow> i < l - f \<Longrightarrow>
     cells (std_copy f l d h) (d + i) = cells h (f + i)"
  by (simp add: std_copy_def copy_loop_inside)

lemma std_copy_blocks: "blocks (std_copy f l d h) = blocks h"
  by (simp add: std_copy_def)

lemma to_size_t_nat: "0 \<le> i \<Longrightarrow> i < 2 ^ 64 \<Longrightarrow> to_size_t i = nat i"
  by (simp add: to_size_t_def)

lemma src_count_span:
  assumes "sb \<le> se" and "se - sb < 2 ^ 64"
  shows "to_size_t (int se - int sb) = se - sb"
proof -
  have e: "int se - int sb = int (se - sb)" using assms(1) by simp
  have "int (se - sb) < 2 ^ 64" using assms(2) by simp
  then have "to_size_t (int (se - sb)) = nat (int (se - sb))"
    by (intro to_size_t_nat) simp_all
  then show ?thesis unfolding e by simp
qed

lemma dst_count_capacity:
  assumes "p \<le> db" and "db \<le> p + m" and "m < 2 ^ 64"
  shows "to_size_t (int m - (int db - int p)) = m - (db - p)"
proof -
  have e: "int m - (int db - int p) = int (m - (db - p))" using assms(1,2) by auto
  have "m - (db - p) < 2 ^ 64" using assms(3) by arith
  then have "int (m - (db - p)) < 2 ^ 64" by simp
  then have "to_size_t (int (m - (db - p))) = nat (int (m - (db - p)))"
    by (intro to_size_t_nat) simp_all
  then show ?thesis unfolding e by simp
qed

lemma byte_count_exact:
  assumes "n * sizeof_T M < 2 ^ 64"
  shows "byte_count M n = n * sizeof_T M"
proof -
  have "int (n * sizeof_T M) < int (2 ^ 64)"
    using assms by (simp only: of_nat_less_iff)
  then have lt: "int n * int (sizeof_T M) < 2 ^ 64" by simp
  have ge: "0 \<le> int n * int (sizeof_T M)" by simp
  have "to_size_t (int n * int (sizeof_T M)) = nat (int n * int (sizeof_T M))"
    using ge lt by (rule to_size_t_nat)
  also have "\<dots> = n * sizeof_T M"
    by (simp add: nat_mult_distrib)
  finally show ?thesis by (simp add: byte_count_def)
qed

lemma room_exact:
  "0 < sizeof_T M \<Longrightarrow> n * sizeof_T M < 2 ^ 64 \<Longrightarrow> byte_count M n div sizeof_T M = n"
  by (simp add: byte_count_exact)

lemma set_values_fits:
  assumes "allocated_m s" "ptr_m s \<noteq> 0" "sb \<noteq> 0" "se \<noteq> 0" "db \<noteq> 0"
    and "sb \<le> se" "se - sb < 2 ^ 64"
    and "ptr_m s \<le> db" "db \<le> ptr_m s + size_m s" "size_m s < 2 ^ 64"
    and "se - sb \<le> size_m s - (db - ptr_m s)"
  shows "set_values sb se db (s, h) = Inr (s, std_copy sb se db h)"
proof -
  have sc: "to_size_t (int se - int sb) = se - sb"
    using assms(6,7) by (rule src_count_span)
  have dc: "to_size_t (int (size_m s) - (int db - int (ptr_m s))) = size_m s - (db - ptr_m s)"
    using assms(8,9,10) by (rule dst_count_capacity)
  show ?thesis
    using assms(1-5,11) sc dc by (simp add: set_values_def)
qed

lemma fresh_apart:
  "fresh h r n \<Longrightarrow> (p, m) \<in> set (blocks h) \<Longrightarrow> r \<noteq> 0 \<and> (r + n \<le> p \<or> p + m \<le> r)"
  by (auto simp: fresh_def list_all_iff)

lemma byte_count_int_glibc:
  "byte_count int_glibc 5 = 20"
  "byte_count int_glibc (2 ^ 62) = 0"
  "byte_count int_glibc 4611686018427387904 = 0"
  "byte_count int_glibc (2 ^ 62 + 2) = 8"
  "byte_count int_glibc 4611686018427387906 = 8"
  by (simp_all add: byte_count_def to_size_t_def int_glibc_def)

lemma example_buf_reached:
  "allocate int_glibc 5 100 (default_ctor junk, empty_heap) = Inr (example_buf, example_heap)"
  by (simp add: default_ctor_def empty_heap_def example_buf_def example_heap_def malloc_def
      byte_count_int_glibc) (simp add: int_glibc_def)

subsection \<open>What the operations leave in the object\<close>

lemma deallocate_empty:
  "allocated_m s \<Longrightarrow>
     deallocate (s, h) = (\<lparr>ptr_m = 0, allocated_m = False, size_m = 0\<rparr>, free (ptr_m s) h)"
  by (cases s) (simp add: deallocate_def)

lemma deallocate_unallocated: "\<not> allocated_m s \<Longrightarrow> deallocate (s, h) = (s, h)"
  by (simp add: deallocate_def)

lemma move_effect:
  assumes "this \<noteq> other"
  shows "objs (move this other w) other = (objs w other)\<lparr>ptr_m := 0, allocated_m := False, size_m := 0\<rparr>"
    and "ptr_m (objs (move this other w) this) = ptr_m (objs w other)"
    and "allocated_m (objs (move this other w) this) = allocated_m (objs w other)"
    and "size_m (objs (move this other w) this) =
           (if allocated_m (objs w this) then 0 else size_m (objs w this))"
  using assms by (simp_all add: move_def deallocate_def Let_def split: prod.splits)

lemma move_self: "move this this w = w"
  by (simp add: move_def)

text \<open>
  The operations above that write the members keep the invariant of the empty state,
  whether they return or throw; the default constructor, which leaves \<^verbatim>\<open>size_\<close> as
  it finds it, is where an object can start outside it.
\<close>

lemma empty_inv_default_ctor: "empty_inv (default_ctor junk) = (junk = 0)"
  by (simp add: empty_inv_def default_ctor_def)

lemma empty_inv_deallocate: "empty_inv s \<Longrightarrow> empty_inv (fst (deallocate (s, h)))"
  by (simp add: empty_inv_def deallocate_def)

lemma empty_inv_clear: "empty_inv s \<Longrightarrow> empty_inv (fst (clear b (s, h)))"
  by (simp add: empty_inv_def clear_def deallocate_def)

lemma empty_inv_set_sp: "empty_inv s \<Longrightarrow> empty_inv (fst (set_sp p (s, h)))"
  by (simp add: empty_inv_def set_sp_def deallocate_def)

lemma empty_inv_allocate:
  "empty_inv s \<Longrightarrow> allocate M n r (s, h) = Inr (s', h') \<or> allocate M n r (s, h) = Inl (e, s', h') \<Longrightarrow>
     empty_inv s'"
  by (auto simp: empty_inv_def Let_def split: if_splits)

lemma empty_inv_reallocate:
  "empty_inv s \<Longrightarrow> reallocate M n r (s, h) = Inr (s', h') \<or> reallocate M n r (s, h) = Inl (e, s', h') \<Longrightarrow>
     empty_inv s'"
  by (auto simp: empty_inv_def Let_def split: if_splits)

lemma empty_inv_resize:
  "empty_inv s \<Longrightarrow> resize M n r (s, h) = Inr (s', h') \<or> resize M n r (s, h) = Inl (e, s', h') \<Longrightarrow>
     empty_inv s'"
  by (auto simp: resize_def deallocate_def empty_inv_def Let_def split: if_splits)

lemma empty_inv_move:
  "empty_inv (objs w this) \<Longrightarrow> empty_inv (objs w other) \<Longrightarrow>
     empty_inv (objs (move this other w) this) \<and> empty_inv (objs (move this other w) other)"
  by (auto simp: move_def deallocate_def empty_inv_def Let_def split: prod.splits)

lemma empty_inv_swap:
  "empty_inv (objs w this) \<Longrightarrow> empty_inv (objs w other) \<Longrightarrow>
     empty_inv (objs (swap this other w) this) \<and> empty_inv (objs (swap this other w) other)"
  by (simp add: swap_def Let_def)

subsection \<open>Within the bounds\<close>

text \<open>
  What holds of the operations on the inputs where \<^verbatim>\<open>size * sizeof(T)\<close> does not wrap,
  the destination of \<^verbatim>\<open>set_values\<close> lies in the counted region, and the returned local
  is elided. The claims C5, C7, C8 and C9 below fail outside these bounds only.
\<close>

lemma reallocate_failure_no_wrap:
  "allocated_m s \<Longrightarrow> 0 < n \<Longrightarrow> byte_count M n \<noteq> 0 \<or> \<not> realloc_zero_frees M \<Longrightarrow>
     (r = 0 \<longrightarrow> reallocate M n r (s, h) = Inl (ReallocationFailure, (s, h)))
     \<and> (\<forall>e st'. reallocate M n r (s, h) = Inl (e, st') \<longrightarrow>
           e = ReallocationFailure \<and> r = 0 \<and> st' = (s, h))"
  by (auto simp: ReallocationFailure_def realloc_def Let_def)

lemma resize_prefix_no_wrap:
  assumes "allocated_m s" and "size_m s \<le> block_len h (ptr_m s)" and "0 < n"
    and "0 < sizeof_T M" and "n * sizeof_T M < 2 ^ 64"
  shows "(n \<noteq> size_sp s \<longrightarrow>
        (\<forall>s' h'. resize M n r (s, h) = Inr (s', h') \<longrightarrow>
           size_sp s' = n \<and> block_len h' (get s') = n
           \<and> (\<forall>i < min (size_sp s) n. cells h' (get s' + i) = cells h (get s + i)))
        \<and> (r \<noteq> 0 \<longrightarrow> (\<exists>st'. resize M n r (s, h) = Inr st')))
     \<and> (n = size_sp s \<longrightarrow> resize M n r (s, h) = Inr (s, h))"
proof -
  have room: "byte_count M n div sizeof_T M = n"
    using assms(4,5) by (rule room_exact)
  show ?thesis
    using assms(1,2,3) room
    by (auto simp: resize_def size_sp_def get_def realloc_def block_len_def Let_def)
qed

lemma set_values_in_region:
  "(\<not> allocated_m s \<or> ptr_m s = 0 \<longrightarrow>
      (\<exists>e. set_values sb se db (s, h) = Inl (e, (s, h)) \<and> NotAllocated e))
   \<and> (allocated_m s \<and> ptr_m s \<noteq> 0 \<and> (sb = 0 \<or> se = 0 \<or> db = 0) \<longrightarrow>
      (\<exists>e. set_values sb se db (s, h) = Inl (e, (s, h)) \<and> InvalidArgument e))
   \<and> (allocated_m s \<and> ptr_m s \<noteq> 0 \<and> sb \<noteq> 0 \<and> se \<noteq> 0 \<and> db \<noteq> 0
        \<and> sb \<le> se \<and> se - sb < 2 ^ 64
        \<and> ptr_m s \<le> db \<and> db \<le> ptr_m s + size_m s \<and> size_m s < 2 ^ 64 \<longrightarrow>
      (size_m s - (db - ptr_m s) < se - sb \<longrightarrow>
         (\<exists>e. set_values sb se db (s, h) = Inl (e, (s, h)) \<and> InvalidArgument e))
      \<and> (se - sb \<le> size_m s - (db - ptr_m s) \<longrightarrow>
         (\<exists>h'. set_values sb se db (s, h) = Inr (s, h')
            \<and> h' = std_copy sb se db h
            \<and> blocks h' = blocks h
            \<and> (\<forall>a. a < db \<or> db + (se - sb) \<le> a \<longrightarrow> cells h' a = cells h a)
            \<and> (db \<le> sb \<or> se \<le> db \<longrightarrow>
                 (\<forall>i < se - sb. cells h' (db + i) = cells h (sb + i))))))"
proof -
  have unalloc: "\<not> allocated_m s \<or> ptr_m s = 0 \<longrightarrow>
      (\<exists>e. set_values sb se db (s, h) = Inl (e, (s, h)) \<and> NotAllocated e)"
    by (simp add: set_values_def)
  have null: "allocated_m s \<and> ptr_m s \<noteq> 0 \<and> (sb = 0 \<or> se = 0 \<or> db = 0) \<longrightarrow>
      (\<exists>e. set_values sb se db (s, h) = Inl (e, (s, h)) \<and> InvalidArgument e)"
    by (simp add: set_values_def)
  have checked: "(size_m s - (db - ptr_m s) < se - sb \<longrightarrow>
         (\<exists>e. set_values sb se db (s, h) = Inl (e, (s, h)) \<and> InvalidArgument e))
      \<and> (se - sb \<le> size_m s - (db - ptr_m s) \<longrightarrow>
         (\<exists>h'. set_values sb se db (s, h) = Inr (s, h')
            \<and> h' = std_copy sb se db h
            \<and> blocks h' = blocks h
            \<and> (\<forall>a. a < db \<or> db + (se - sb) \<le> a \<longrightarrow> cells h' a = cells h a)
            \<and> (db \<le> sb \<or> se \<le> db \<longrightarrow>
                 (\<forall>i < se - sb. cells h' (db + i) = cells h (sb + i)))))"
    if a: "allocated_m s" "ptr_m s \<noteq> 0" "sb \<noteq> 0" "se \<noteq> 0" "db \<noteq> 0"
      and span: "sb \<le> se" "se - sb < 2 ^ 64"
      and dst: "ptr_m s \<le> db" "db \<le> ptr_m s + size_m s" "size_m s < 2 ^ 64"
  proof -
    have sc: "to_size_t (int se - int sb) = se - sb"
      using span by (rule src_count_span)
    have dc: "to_size_t (int (size_m s) - (int db - int (ptr_m s))) = size_m s - (db - ptr_m s)"
      using dst by (rule dst_count_capacity)
    have res: "set_values sb se db (s, h) =
       (if size_m s - (db - ptr_m s) < se - sb
        then Inl (invalid_argument ''Source range exceeds destination space'', (s, h))
        else Inr (s, std_copy sb se db h))"
      using a sc dc by (simp add: set_values_def)
    have ins: "db \<le> sb \<or> se \<le> db \<longrightarrow>
        (\<forall>i < se - sb. cells (std_copy sb se db h) (db + i) = cells h (sb + i))"
      using span(1) by (simp add: std_copy_inside)
    show ?thesis
      using res ins by (simp add: std_copy_outside std_copy_blocks)
  qed
  show ?thesis
    using unalloc null checked by blast
qed

lemma clone_result:
  assumes "nrvo M" and "0 < sizeof_T M" and "size_m s * sizeof_T M < 2 ^ 64"
    and "0 < size_m s" and "r \<noteq> 0"
  shows "clone M junk r (s, h) =
       Inr (\<lparr>ptr_m = r, allocated_m = True, size_m = size_m s\<rparr>,
            \<lparr>cells = copy_loop (size_m s) (ptr_m s) r (cells h),
             blocks = (r, size_m s) # blocks h\<rparr>)"
proof -
  have room: "byte_count M (size_m s) div sizeof_T M = size_m s"
    using assms(2,3) by (rule room_exact)
  show ?thesis
    using assms(1,4,5) room
    by (simp add: clone_def default_ctor_def malloc_def std_copy_def)
qed

lemma clone_elided_independent:
  assumes "allocated_m s" and "0 < size_m s"
    and "(ptr_m s, size_m s) \<in> set (blocks h)" and "fresh h r (size_m s)"
    and "nrvo M" and "0 < sizeof_T M" and "size_m s * sizeof_T M < 2 ^ 64"
  shows "\<exists>c h'. clone M junk r (s, h) = Inr (c, h')
     \<and> \<not> compare s c \<and> is_allocated c \<and> size_sp c = size_sp s
     \<and> (get c, size_sp c) \<in> set (blocks h')
     \<and> (\<forall>i < size_sp s. cells h' (get c + i) = cells h (get s + i))
     \<and> (\<forall>i < size_sp s. cells h' (get s + i) = cells h (get s + i))
     \<and> (ptr_m s, size_m s) \<in> set (blocks h')
     \<and> (\<forall>v idx. idx < size_sp c \<longrightarrow>
           (\<exists>h''. set_value v idx (c, h') = Inr (c, h'')
              \<and> (\<forall>i < size_sp s. cells h'' (get s + i) = cells h (get s + i))))
     \<and> (\<forall>v. \<exists>h''. fill v (c, h') = Inr (c, h'')
              \<and> (\<forall>i < size_sp s. cells h'' (get s + i) = cells h (get s + i)))
     \<and> (\<forall>sb se db. sb \<noteq> 0 \<and> se \<noteq> 0 \<and> sb \<le> se \<and> se - sb < 2 ^ 64
              \<and> get c \<le> db \<and> db \<le> get c + size_sp c \<and> size_sp c < 2 ^ 64
              \<and> se - sb \<le> size_sp c - (db - get c) \<longrightarrow>
           (\<exists>h''. set_values sb se db (c, h') = Inr (c, h'')
              \<and> (\<forall>i < size_sp s. cells h'' (get s + i) = cells h (get s + i))))"
proof -
  let ?p = "ptr_m s" and ?m = "size_m s"
  let ?c = "\<lparr>ptr_m = r, allocated_m = True, size_m = ?m\<rparr>"
  let ?h' = "\<lparr>cells = copy_loop ?m ?p r (cells h), blocks = (r, ?m) # blocks h\<rparr>"
  from fresh_apart [OF assms(4) assms(3)]
  have r0: "r \<noteq> 0" and apart: "r + ?m \<le> ?p \<or> ?p + ?m \<le> r" by auto
  have res: "clone M junk r (s, h) = Inr (?c, ?h')"
    using assms(5,6,7,2) r0 by (rule clone_result)
  have distinct: "\<not> compare s ?c"
    using apart assms(2) by (auto simp: compare_def)
  have copied: "\<forall>i < ?m. cells ?h' (r + i) = cells h (?p + i)"
    using apart by (auto simp: copy_loop_inside)
  have kept: "\<forall>i < ?m. cells ?h' (?p + i) = cells h (?p + i)"
    using apart by (auto simp: copy_loop_outside)
  have live: "(?p, ?m) \<in> set (blocks ?h')"
    using assms(3) by simp
  have written: "\<forall>v idx. idx < ?m \<longrightarrow>
      (\<exists>h''. set_value v idx (?c, ?h') = Inr (?c, h'')
         \<and> (\<forall>i < ?m. cells h'' (?p + i) = cells h (?p + i)))"
    using apart r0 kept by (auto simp: set_value_def)
  have filled: "\<forall>v. \<exists>h''. fill v (?c, ?h') = Inr (?c, h'')
         \<and> (\<forall>i < ?m. cells h'' (?p + i) = cells h (?p + i))"
    using apart r0 kept
    by (auto simp: fill_def fill_range_def std_fill_def begin_sp_def end_sp_def fill_loop_outside)
  have spanned: "\<exists>h''. set_values sb se db (?c, ?h') = Inr (?c, h'')
         \<and> (\<forall>i < ?m. cells h'' (?p + i) = cells h (?p + i))"
    if a: "sb \<noteq> 0" "se \<noteq> 0" "sb \<le> se" "se - sb < 2 ^ 64"
      and b: "r \<le> db" "db \<le> r + ?m" "?m < 2 ^ 64" "se - sb \<le> ?m - (db - r)"
    for sb se db
  proof -
    have db0: "db \<noteq> 0" using r0 b(1) by simp
    have eq: "set_values sb se db (?c, ?h') = Inr (?c, std_copy sb se db ?h')"
      using r0 a db0 b by (intro set_values_fits) simp_all
    have "cells (std_copy sb se db ?h') (?p + i) = cells ?h' (?p + i)" if "i < ?m" for i
      using that apart b by (intro std_copy_outside) arith
    then show ?thesis using eq kept by simp
  qed
  have f1: "size_sp ?c = size_sp s"
    by (simp add: size_sp_def)
  have f0: "is_allocated ?c"
    by (simp add: is_allocated_def)
  have own: "(get ?c, size_sp ?c) \<in> set (blocks ?h')"
    by (simp add: size_sp_def get_def)
  have f2: "\<forall>i < size_sp s. cells ?h' (get ?c + i) = cells h (get s + i)"
    using copied by (simp add: size_sp_def get_def)
  have f3: "\<forall>i < size_sp s. cells ?h' (get s + i) = cells h (get s + i)"
    using kept by (simp add: size_sp_def get_def)
  have f4: "\<forall>v idx. idx < size_sp ?c \<longrightarrow>
           (\<exists>h''. set_value v idx (?c, ?h') = Inr (?c, h'')
              \<and> (\<forall>i < size_sp s. cells h'' (get s + i) = cells h (get s + i)))"
    using written by (simp add: size_sp_def get_def)
  have f5: "\<forall>v. \<exists>h''. fill v (?c, ?h') = Inr (?c, h'')
              \<and> (\<forall>i < size_sp s. cells h'' (get s + i) = cells h (get s + i))"
    using filled by (simp add: size_sp_def get_def)
  have f6: "\<forall>sb se db. sb \<noteq> 0 \<and> se \<noteq> 0 \<and> sb \<le> se \<and> se - sb < 2 ^ 64
              \<and> get ?c \<le> db \<and> db \<le> get ?c + size_sp ?c \<and> size_sp ?c < 2 ^ 64
              \<and> se - sb \<le> size_sp ?c - (db - get ?c) \<longrightarrow>
           (\<exists>h''. set_values sb se db (?c, ?h') = Inr (?c, h'')
              \<and> (\<forall>i < size_sp s. cells h'' (get s + i) = cells h (get s + i)))"
    unfolding size_sp_def get_def SafePointer.select_convs using spanned by blast
  from res distinct f0 f1 own f2 f3 live f4 f5 f6 show ?thesis
    by blast
qed

subsection \<open>The claims\<close>

text \<open>
  C1. After \<^verbatim>\<open>move(other)\<close> between two distinct objects the destination should report
  the size the source had. Here the destination is a buffer of three elements and the
  source one of five: the destination takes the source's pointer and flag, the source
  is emptied, and the destination's \<^verbatim>\<open>size()\<close> is \<open>0\<close> where the source's was \<open>5\<close>;
  \<^verbatim>\<open>move\<close> never assigns \<^verbatim>\<open>size_\<close> of the destination.
\<close>

theorem move_loses_size:
  "get (objs (move 1 2 example_world) 1) = 100
   \<and> is_allocated (objs (move 1 2 example_world) 1)
   \<and> size_sp (objs (move 1 2 example_world) 1) = 0
   \<and> size_sp (objs example_world 2) = 5
   \<and> \<not> is_allocated (objs (move 1 2 example_world) 2)
   \<and> size_sp (objs (move 1 2 example_world) 2) = 0"
  by (simp add: move_def deallocate_def example_world_def example_buf_def
      get_def is_allocated_def size_sp_def)

text \<open>
  C2. An object that is not allocated should have a null pointer and size \<open>0\<close>, a newly
  default-constructed one included. A default-initialised object whose storage held
  \<open>7\<close> is not allocated, has a null pointer, and reports \<^verbatim>\<open>size()\<close> \<open>= 7\<close>.
\<close>

theorem default_ctor_size_indeterminate:
  "\<not> is_allocated (default_ctor 7) \<and> get (default_ctor 7) = 0 \<and> size_sp (default_ctor 7) = 7"
  by (simp add: default_ctor_def is_allocated_def get_def size_sp_def)

text \<open>
  C3, as stated: \<^verbatim>\<open>resize(0)\<close> gives the state \<^verbatim>\<open>release()\<close> gives, from every state and
  from the one \<^verbatim>\<open>clear(false)\<close> leaves in particular. It does not there: after
  \<^verbatim>\<open>clear(false)\<close> the size is \<open>0\<close> already, \<^verbatim>\<open>resize(0)\<close> returns at its first test and
  the object stays allocated, while \<^verbatim>\<open>deallocate\<close> clears the flag.
\<close>

theorem resize_zero_after_clear_counterexample:
  "resize int_glibc 0 0 (clear False (example_buf, example_heap)) = Inr (clear False (example_buf, example_heap))
   \<and> is_allocated (fst (clear False (example_buf, example_heap)))
   \<and> \<not> is_allocated (fst (deallocate (clear False (example_buf, example_heap))))
   \<and> resize int_glibc 0 0 (clear False (example_buf, example_heap))
       \<noteq> Inr (deallocate (clear False (example_buf, example_heap)))"
  by (simp add: resize_def clear_def deallocate_def example_buf_def is_allocated_def)

text \<open>
  C3, amended: from every state that is not allocated or whose size is not \<open>0\<close>,
  \<^verbatim>\<open>resize(0)\<close> gives the state \<^verbatim>\<open>release()\<close> gives; \<^verbatim>\<open>release()\<close> always leaves the
  object unallocated, with size \<open>0\<close> when it was allocated or its size was \<open>0\<close> before;
  from a state of size \<open>0\<close>, the one \<^verbatim>\<open>clear(false)\<close> leaves among them, \<^verbatim>\<open>resize(0)\<close>
  changes nothing; \<^verbatim>\<open>resize(0)\<close> never throws, and a second \<^verbatim>\<open>release()\<close> or
  \<^verbatim>\<open>resize(0)\<close> changes nothing more.
\<close>

theorem resize_zero_release:
  "(\<not> allocated_m s \<or> size_m s \<noteq> 0 \<longrightarrow> resize M 0 r (s, h) = Inr (deallocate (s, h)))
   \<and> \<not> is_allocated (fst (deallocate (s, h)))
   \<and> (allocated_m s \<or> size_m s = 0 \<longrightarrow> size_sp (fst (deallocate (s, h))) = 0)
   \<and> (size_m s = 0 \<longrightarrow> resize M 0 r (s, h) = Inr (s, h))
   \<and> deallocate (deallocate (s, h)) = deallocate (s, h)
   \<and> (\<exists>st'. resize M 0 r (s, h) = Inr st' \<and> resize M 0 r' st' = Inr st')"
  by (auto simp: resize_def deallocate_def is_allocated_def size_sp_def)

theorem resize_zero_release_witness:
  "allocated_m example_buf \<and> size_m example_buf = 5
   \<and> resize int_glibc 0 0 (example_buf, example_heap) = Inr (deallocate (example_buf, example_heap))
   \<and> \<not> is_allocated (fst (deallocate (example_buf, example_heap)))
   \<and> size_sp (fst (deallocate (example_buf, example_heap))) = 0
   \<and> size_m (fst (clear False (example_buf, example_heap))) = 0
   \<and> resize int_glibc 0 0 (clear False (example_buf, example_heap)) = Inr (clear False (example_buf, example_heap))"
proof -
  have a: "allocated_m example_buf" and b: "size_m example_buf = 5"
    by (simp_all add: example_buf_def)
  have c: "size_m (fst (clear False (example_buf, example_heap))) = 0"
    by (simp add: clear_def)
  obtain s1 h1 where d: "clear False (example_buf, example_heap) = (s1, h1)"
    by (cases "clear False (example_buf, example_heap)")
  show ?thesis
    using a b c resize_zero_release [of example_buf int_glibc 0 example_heap 0]
      resize_zero_release [of s1 int_glibc 0 h1 0] d
    by simp
qed

text \<open>
  C4. For an allocated buffer, after \<^verbatim>\<open>clear(false)\<close> \<^verbatim>\<open>is_allocated()\<close> is true,
  \<^verbatim>\<open>size()\<close> is \<open>0\<close> and \<^verbatim>\<open>get()\<close> is null; after \<^verbatim>\<open>clear(true)\<close> \<^verbatim>\<open>is_allocated()\<close>
  is false and \<^verbatim>\<open>size()\<close> is \<open>0\<close>.
\<close>

theorem clear_contract:
  "allocated_m s \<Longrightarrow>
     is_allocated (fst (clear False (s, h))) \<and> size_sp (fst (clear False (s, h))) = 0
     \<and> get (fst (clear False (s, h))) = 0
     \<and> \<not> is_allocated (fst (clear True (s, h))) \<and> size_sp (fst (clear True (s, h))) = 0"
  by (simp add: clear_def deallocate_def is_allocated_def size_sp_def get_def)

theorem clear_contract_witness:
  "allocated_m example_buf
   \<and> is_allocated (fst (clear False (example_buf, example_heap)))
   \<and> size_sp (fst (clear False (example_buf, example_heap))) = 0
   \<and> get (fst (clear False (example_buf, example_heap))) = 0
   \<and> \<not> is_allocated (fst (clear True (example_buf, example_heap)))
   \<and> size_sp (fst (clear True (example_buf, example_heap))) = 0"
proof -
  have a: "allocated_m example_buf" by (simp add: example_buf_def)
  show ?thesis using a clear_contract [OF a, of example_heap] by simp
qed

text \<open>
  C5. When \<^verbatim>\<open>reallocate(n)\<close> throws the reallocation failure, the object and its region
  should be as before the call. For the buffer of five \<^verbatim>\<open>int\<close> at \<open>100\<close> and
  \<open>n = 2 ^ 62\<close> the product \<^verbatim>\<open>size * sizeof(T)\<close> is \<open>2 ^ 64\<close>, which is \<open>0\<close> in
  \<^verbatim>\<open>size_t\<close>: \<^verbatim>\<open>realloc(ptr_, 0)\<close> frees the region and returns null, the code throws
  the reallocation failure, and the object is left allocated, of size \<open>5\<close>, pointing at
  \<open>100\<close>, where no block lives any more.
\<close>

theorem reallocate_wrap_frees_region:
  "byte_count int_glibc (2 ^ 62) = 0
   \<and> reallocate int_glibc (2 ^ 62) 0 (example_buf, example_heap)
       = Inl (ReallocationFailure, (example_buf, free 100 example_heap))
   \<and> is_allocated example_buf \<and> get example_buf = 100 \<and> size_sp example_buf = 5
   \<and> blocks example_heap = [(100, 5)]
   \<and> blocks (free 100 example_heap) = []
   \<and> block_len (free 100 example_heap) (get example_buf) = 0"
proof -
  have st: "allocated_m example_buf" "ptr_m example_buf = 100" "size_m example_buf = 5"
    by (simp_all add: example_buf_def)
  have fr: "realloc_zero_frees int_glibc"
    by (simp add: int_glibc_def)
  have r: "reallocate int_glibc (2 ^ 62) 0 (example_buf, example_heap)
       = Inl (ReallocationFailure, (example_buf, free 100 example_heap))"
    using st fr
    by (simp add: byte_count_int_glibc realloc_def ReallocationFailure_def)
  have b: "blocks example_heap = [(100, 5)]" "blocks (free 100 example_heap) = []"
    by (simp_all add: example_heap_def free_def)
  show ?thesis
    using st r b
    by (simp add: byte_count_int_glibc is_allocated_def get_def size_sp_def block_len_def)
qed

text \<open>
  C6. For \<open>n > 0\<close> a successful \<^verbatim>\<open>allocate(n)\<close> leaves \<^verbatim>\<open>is_allocated()\<close> true and
  \<^verbatim>\<open>size()\<close> equal to \<open>n\<close>, and it succeeds whenever the allocator returns a pointer;
  \<^verbatim>\<open>allocate(0)\<close> throws an invalid argument and leaves the object and the heap as
  they were, so an empty object stays empty.
\<close>

theorem allocate_contract:
  "(0 < n \<longrightarrow>
      (\<forall>s' h'. allocate M n r (s, h) = Inr (s', h') \<longrightarrow> is_allocated s' \<and> size_sp s' = n)
      \<and> (r \<noteq> 0 \<longrightarrow> (\<exists>st'. allocate M n r (s, h) = Inr st')))
   \<and> (\<exists>e. allocate M 0 r (s, h) = Inl (e, (s, h)) \<and> InvalidArgument e)"
  by (auto simp: is_allocated_def size_sp_def Let_def)

theorem allocate_contract_witness:
  "(0::nat) < 5 \<and> (100::nat) \<noteq> 0
   \<and> allocate int_glibc 5 100 (default_ctor 0, empty_heap) = Inr (example_buf, example_heap)
   \<and> is_allocated example_buf \<and> size_sp example_buf = 5
   \<and> allocate int_glibc 0 100 (default_ctor 0, empty_heap)
       = Inl (invalid_argument ''Cannot allocate 0 elements'', (default_ctor 0, empty_heap))"
proof -
  have a: "allocate int_glibc 5 100 (default_ctor 0, empty_heap) = Inr (example_buf, example_heap)"
    by (rule example_buf_reached)
  have b: "allocate int_glibc 0 100 (default_ctor 0, empty_heap)
       = Inl (invalid_argument ''Cannot allocate 0 elements'', (default_ctor 0, empty_heap))"
    by simp
  show ?thesis
    using a b allocate_contract [of 5 int_glibc 100 "default_ctor 0" empty_heap] by simp
qed

text \<open>
  C7. \<^verbatim>\<open>set_values\<close> should refuse, with an invalid argument, a source span longer than
  the count less the offset of the destination. The two counts are \<^verbatim>\<open>size_t\<close>, and when
  the offset exceeds the count the difference wraps to a huge capacity, so the span is
  accepted and copied. After \<^verbatim>\<open>set(p)\<close> of a region of ten elements at \<open>500\<close> the
  count is \<open>0\<close>; with the destination at \<open>501\<close>, inside that region, the count less
  the offset is \<open>-1\<close> and a span of three is copied there. On the buffer of five at
  \<open>100\<close> a destination at \<open>106\<close> gives \<open>-1\<close> too, and the three elements are
  written past the end of the region.
\<close>

theorem set_values_accepts_beyond_capacity:
  "set_sp 500 (example_buf, caller_heap)
     = (\<lparr>ptr_m = 500, allocated_m = True, size_m = 0\<rparr>, free 100 caller_heap)
   \<and> int (size_m \<lparr>ptr_m = 500, allocated_m = True, size_m = 0\<rparr>)
       - (int 501 - int (ptr_m \<lparr>ptr_m = 500, allocated_m = True, size_m = 0\<rparr>)) = - 1
   \<and> (303::nat) - 300 = 3
   \<and> set_values 300 303 501 (\<lparr>ptr_m = 500, allocated_m = True, size_m = 0\<rparr>, free 100 caller_heap)
     = Inr (\<lparr>ptr_m = 500, allocated_m = True, size_m = 0\<rparr>,
            std_copy 300 303 501 (free 100 caller_heap))
   \<and> cells (std_copy 300 303 501 (free 100 caller_heap)) 501 = 300
   \<and> cells (free 100 caller_heap) 501 = 501
   \<and> int (size_m example_buf) - (int 106 - int (ptr_m example_buf)) = - 1
   \<and> set_values 300 303 106 (example_buf, example_heap)
     = Inr (example_buf, std_copy 300 303 106 example_heap)
   \<and> cells (std_copy 300 303 106 example_heap) 106 = 300
   \<and> cells example_heap 106 = 106"
proof -
  have st: "allocated_m example_buf" "ptr_m example_buf = 100" "size_m example_buf = 5"
    by (simp_all add: example_buf_def)
  have a: "set_sp 500 (example_buf, caller_heap)
     = (\<lparr>ptr_m = 500, allocated_m = True, size_m = 0\<rparr>, free 100 caller_heap)"
    by (simp add: set_sp_def deallocate_def example_buf_def)
  have b: "set_values 300 303 501 (\<lparr>ptr_m = 500, allocated_m = True, size_m = 0\<rparr>, free 100 caller_heap)
     = Inr (\<lparr>ptr_m = 500, allocated_m = True, size_m = 0\<rparr>,
            std_copy 300 303 501 (free 100 caller_heap))"
    by (simp add: set_values_def to_size_t_def)
  have c: "set_values 300 303 106 (example_buf, example_heap)
     = Inr (example_buf, std_copy 300 303 106 example_heap)"
    using st by (simp add: set_values_def to_size_t_def)
  have d: "cells (std_copy 300 303 501 (free 100 caller_heap)) 501 = 300"
    "cells (free 100 caller_heap) 501 = 501"
    "cells (std_copy 300 303 106 example_heap) 106 = 300"
    "cells example_heap 106 = 106"
    by (simp_all add: std_copy_def numeral_3_eq_3 free_def caller_heap_def example_heap_def)
  show ?thesis
    using st a b c d by simp
qed

theorem set_values_accepts_beyond_capacity_witness:
  "(case set_values 300 303 501
           (\<lparr>ptr_m = 500, allocated_m = True, size_m = 0\<rparr>, free 100 caller_heap) of
      Inl x \<Rightarrow> False | Inr y \<Rightarrow> True)
   \<and> (case set_values 300 303 106 (example_buf, example_heap) of
      Inl x \<Rightarrow> False | Inr y \<Rightarrow> True)"
  using set_values_accepts_beyond_capacity by simp

text \<open>
  C8. A successful \<^verbatim>\<open>resize(n)\<close> should leave \<^verbatim>\<open>size()\<close> equal to \<open>n\<close> and the first
  \<open>min m n\<close> elements as they were. For the buffer of five \<^verbatim>\<open>int\<close> at \<open>100\<close> and
  \<open>n = 2 ^ 62 + 2\<close> the product \<^verbatim>\<open>size * sizeof(T)\<close> wraps to \<open>8\<close> bytes: \<^verbatim>\<open>realloc\<close>
  succeeds with room for two elements and \<^verbatim>\<open>size()\<close> becomes \<open>n\<close>. Of the first five
  elements two are carried over; when the block is moved to \<open>300\<close> the third element of
  the buffer is whatever was at \<open>302\<close>, and when it is shrunk in place the third lies
  outside the block.
\<close>

theorem resize_wrap_loses_prefix:
  "byte_count int_glibc (2 ^ 62 + 2) = 8
   \<and> resize int_glibc (2 ^ 62 + 2) 300 (example_buf, example_heap)
       = Inr (\<lparr>ptr_m = 300, allocated_m = True, size_m = 2 ^ 62 + 2\<rparr>,
              realloc int_glibc 100 8 300 example_heap)
   \<and> size_sp \<lparr>ptr_m = 300, allocated_m = True, size_m = 2 ^ 62 + 2\<rparr> = 2 ^ 62 + 2
   \<and> min (size_sp example_buf) (2 ^ 62 + 2) = 5
   \<and> blocks (realloc int_glibc 100 8 300 example_heap) = [(300, 2)]
   \<and> cells (realloc int_glibc 100 8 300 example_heap) (300 + 2) = 302
   \<and> cells example_heap (get example_buf + 2) = 102
   \<and> resize int_glibc (2 ^ 62 + 2) 100 (example_buf, example_heap)
       = Inr (\<lparr>ptr_m = 100, allocated_m = True, size_m = 2 ^ 62 + 2\<rparr>,
              realloc int_glibc 100 8 100 example_heap)
   \<and> blocks (realloc int_glibc 100 8 100 example_heap) = [(100, 2)]"
proof -
  have st: "allocated_m example_buf" "ptr_m example_buf = 100" "size_m example_buf = 5"
    by (simp_all add: example_buf_def)
  have ne: "(2::nat) ^ 62 + 2 \<noteq> 5" "(2::nat) ^ 62 + 2 \<noteq> 0" by simp_all
  have r: "resize int_glibc (2 ^ 62 + 2) r (example_buf, example_heap)
       = Inr (\<lparr>ptr_m = r, allocated_m = True, size_m = 2 ^ 62 + 2\<rparr>,
              realloc int_glibc 100 8 r example_heap)" if "r \<noteq> 0" for r
    using st ne that
    by (simp add: resize_def byte_count_int_glibc)
  have bl: "blocks (realloc int_glibc 100 8 300 example_heap) = [(300, 2)]"
    "blocks (realloc int_glibc 100 8 100 example_heap) = [(100, 2)]"
    by (simp_all add: realloc_def int_glibc_def example_heap_def)
  have ce: "cells (realloc int_glibc 100 8 300 example_heap) (300 + 2) = 302"
    "cells example_heap (get example_buf + 2) = 102"
    by (simp_all add: realloc_def int_glibc_def example_heap_def block_len_def get_def st)
  have mn: "min (size_sp example_buf) (2 ^ 62 + 2) = 5"
    by (simp add: size_sp_def st)
  show ?thesis
    using r [of 300] r [of 100] bl ce mn
    by (simp add: byte_count_int_glibc size_sp_def)
qed

text \<open>
  C9. \<^verbatim>\<open>clone()\<close> should return a buffer with its own region holding a copy of the
  elements. It returns a local by value, and the class has no copy or move constructor
  of its own. Where the compiler elides the copy, the caller has the local and its
  region at \<open>300\<close> is live. Where it does not, the caller has a member-by-member copy
  and the local's destructor has freed the region: the clone is allocated, of size
  \<open>5\<close>, with a pointer of its own at \<open>300\<close>, and no block lives there.
\<close>

theorem clone_unelided_dangles:
  "(case clone int_glibc_unelided 0 300 (example_buf, example_heap) of
      Inl x \<Rightarrow> False
    | Inr (c, h') \<Rightarrow> is_allocated c \<and> get c = 300 \<and> size_sp c = 5
        \<and> \<not> compare example_buf c
        \<and> blocks h' = [(100, 5)] \<and> block_len h' (get c) = 0)
   \<and> (case clone int_glibc 0 300 (example_buf, example_heap) of
      Inl x \<Rightarrow> False
    | Inr (c, h') \<Rightarrow> is_allocated c \<and> get c = 300 \<and> size_sp c = 5
        \<and> blocks h' = [(300, 5), (100, 5)] \<and> block_len h' (get c) = 5)"
proof -
  have st: "allocated_m example_buf" "ptr_m example_buf = 100" "size_m example_buf = 5"
    by (simp_all add: example_buf_def)
  have al: "allocate M 5 300 (default_ctor 0, example_heap)
      = Inr (\<lparr>ptr_m = 300, allocated_m = True, size_m = 5\<rparr>,
             example_heap\<lparr>blocks := [(300, 5), (100, 5)]\<rparr>)"
    if "sizeof_T M = 4" for M
    using that
    by (simp add: default_ctor_def malloc_def byte_count_def to_size_t_def example_heap_def)
  have pu: "sizeof_T int_glibc_unelided = 4" "\<not> nrvo int_glibc_unelided"
    and pe: "sizeof_T int_glibc = 4" "nrvo int_glibc"
    by (simp_all add: int_glibc_unelided_def int_glibc_def)
  have u: "clone int_glibc_unelided 0 300 (example_buf, example_heap)
      = Inr (\<lparr>ptr_m = 300, allocated_m = True, size_m = 5\<rparr>,
             free 300 (std_copy 100 105 300 (example_heap\<lparr>blocks := [(300, 5), (100, 5)]\<rparr>)))"
    by (simp add: clone_def st al [OF pu(1)] pu(2) copy_ctor_def deallocate_def
        del: allocate.simps)
  have e: "clone int_glibc 0 300 (example_buf, example_heap)
      = Inr (\<lparr>ptr_m = 300, allocated_m = True, size_m = 5\<rparr>,
             std_copy 100 105 300 (example_heap\<lparr>blocks := [(300, 5), (100, 5)]\<rparr>))"
    by (simp add: clone_def st al [OF pe(1)] pe(2) del: allocate.simps)
  show ?thesis
    unfolding u e
    by (simp add: is_allocated_def get_def size_sp_def compare_def st
        free_def std_copy_def block_len_def)
qed

text \<open>
  C10. For an allocated buffer and a non-null pointer \<open>p\<close>, after \<^verbatim>\<open>set(p)\<close>
  \<^verbatim>\<open>is_allocated()\<close> is true, \<^verbatim>\<open>get()\<close> is \<open>p\<close> and \<^verbatim>\<open>size()\<close> is \<open>0\<close>: the release
  that comes first zeroes the count and nothing sets it again.
\<close>

theorem set_resets_count:
  "allocated_m s \<Longrightarrow> p \<noteq> 0 \<Longrightarrow>
     is_allocated (fst (set_sp p (s, h))) \<and> size_sp (fst (set_sp p (s, h))) = 0
     \<and> get (fst (set_sp p (s, h))) = p"
  by (simp add: set_sp_def deallocate_def is_allocated_def size_sp_def get_def)

theorem set_resets_count_witness:
  "allocated_m example_buf \<and> (300::nat) \<noteq> 0 \<and> size_sp example_buf = 5
   \<and> is_allocated (fst (set_sp 300 (example_buf, example_heap)))
   \<and> size_sp (fst (set_sp 300 (example_buf, example_heap))) = 0
   \<and> get (fst (set_sp 300 (example_buf, example_heap))) = 300"
proof -
  have a: "allocated_m example_buf" and c: "size_sp example_buf = 5"
    by (simp_all add: example_buf_def size_sp_def)
  have b: "(300::nat) \<noteq> 0" by simp
  show ?thesis using a b c set_resets_count [OF a b, of example_heap] by simp
qed

end
